theory Spec2Isabelle
  imports
    Main
    "HOL-Library.Word"
    "HOL-Library.Signed_Division"
    "HOL-Library.Log_Nat"
    "HOL-Library.AList"
    "HOL-Library.Char_ord"
    "HOL-Library.List_Lexorder"
begin

unbundle bit_operations_syntax

section \<open>Data model of package paginator\<close>

text \<open>
  Go's \<^verbatim>\<open>int\<close> is modelled at its 64-bit width: arithmetic wraps around, comparisons
  are the signed ones (\<open><s\<close>, \<open>\<le>s\<close>), and division truncates towards zero (\<open>sdiv\<close>).
\<close>

type_synonym go_int = "64 word"

text \<open>
  \<^verbatim>\<open>url.Values\<close> is \<^verbatim>\<open>map[string][]string\<close>: an association list with one entry per key.
  A nil map is \<open>None\<close> where the source tells it apart from an empty one.
\<close>

type_synonym Values = "(string \<times> string list) list"

record Opt =
  DefaultPerPage :: go_int
  MaxPerPage :: go_int
  NumPageNums :: go_int
  PerPageParam :: string
  PageParam :: string
  AllowAll :: bool
  AllowAllParam :: string

text \<open>The struct \<^verbatim>\<open>Paginator\<close> has the single field \<^verbatim>\<open>o\<close>; it is named \<open>opts\<close> here.\<close>

record Paginator =
  opts :: Opt

text \<open>
  The struct \<^verbatim>\<open>Set\<close>. The pointer \<^verbatim>\<open>pg\<close> refers to a paginator that is never
  modified after its construction, so the record holds its value.
\<close>

record PageSet =
  Page :: go_int
  PerPage :: go_int
  TotalPages :: go_int
  Total :: go_int
  Params :: "Values option"
  Offset :: go_int
  Limit :: go_int
  PinFirstPage :: bool
  PinLastPage :: bool
  Pages :: "go_int list"
  pg :: Paginator

section \<open>Construction and sanitisation\<close>

definition Default :: Opt where
  "Default =
     \<lparr> DefaultPerPage = 10, MaxPerPage = 50, NumPageNums = 10,
       PerPageParam = ''per_page'', PageParam = ''page'',
       AllowAll = False, AllowAllParam = ''all'' \<rparr>"

text \<open>\<^verbatim>\<open>func New(o Opt) *Paginator\<close>\<close>

definition New :: "Opt \<Rightarrow> Paginator" where
  "New o' =
     (let o'' = (if AllowAllParam o' = [] then o'\<lparr>AllowAllParam := ''all''\<rparr> else o')
      in \<lparr> opts = o'' \<rparr>)"

text \<open>
  \<^verbatim>\<open>func (p *Paginator) New(page, perPage int) Set\<close>. The fields the composite literal
  does not mention take Go's zero values.
\<close>

definition Paginator_New :: "Paginator \<Rightarrow> go_int \<Rightarrow> go_int \<Rightarrow> PageSet" where
  "Paginator_New p page perPage =
     (let perPage' =
            (if perPage <s 0 \<and> AllowAll (opts p) then 0
             else if perPage <s 1 then DefaultPerPage (opts p)
             else if \<not> AllowAll (opts p) \<and> MaxPerPage (opts p) <s perPage
               then MaxPerPage (opts p)
             else perPage);
          page' = (if page <s 1 then 1 else page)
      in \<lparr> Page = page', PerPage = perPage', TotalPages = 0, Total = 0, Params = None,
           Offset = (page' - 1) * perPage', Limit = perPage',
           PinFirstPage = False, PinLastPage = False, Pages = [], pg = p \<rparr>)"

section \<open>Go arithmetic the package relies on\<close>

text \<open>Integer division of Go truncates towards zero.\<close>

definition go_div :: "go_int \<Rightarrow> go_int \<Rightarrow> go_int" where
  "go_div a b = word_of_int (sint a sdiv sint b)"

text \<open>
  \<^verbatim>\<open>float64\<close> values: the finite ones by their exact rational value (a zero of either
  sign is \<open>Finite 0\<close>), the two infinities and not-a-number.
\<close>

datatype float64 = Finite rat | PosInf | NegInf | NaN

text \<open>The exponent \<open>e\<close> with \<open>2 ^ e \<le> a < 2 ^ (e + 1)\<close>, for positive \<open>a\<close>.\<close>

definition ilog2 :: "rat \<Rightarrow> int" where
  "ilog2 a =
     (let (n, d) = quotient_of a; k = bitlen n - bitlen d
      in if 2 powi k \<le> a then k else k - 1)"

definition roundTiesToEven :: "rat \<Rightarrow> int" where
  "roundTiesToEven x =
     (let f = \<lfloor>x\<rfloor>; d = x - of_int f
      in if d < 1 / 2 then f else if 1 / 2 < d then f + 1 else if even f then f else f + 1)"

text \<open>
  Rounding of an exact value to binary64 (53 significant bits, exponents from -1022,
  round to nearest, ties to even, overflow to an infinity): the rounding of every
  IEEE 754 operation.
\<close>

definition round64 :: "rat \<Rightarrow> float64" where
  "round64 q =
     (if q = 0 then Finite 0
      else let a = \<bar>q\<bar>;
               e = max (ilog2 a) (- 1022);
               u = 2 powi (e - 52);
               r = of_int (roundTiesToEven (a / u)) * u
           in if 2 powi 1024 \<le> r then (if 0 < q then PosInf else NegInf)
              else Finite (sgn q * r))"

text \<open>The conversion \<^verbatim>\<open>float64(x)\<close> of an \<^verbatim>\<open>int\<close>.\<close>

definition float64_of_int :: "go_int \<Rightarrow> float64" where
  "float64_of_int x = round64 (of_int (sint x))"

text \<open>
  The quotient \<^verbatim>\<open>x / y\<close> of two \<^verbatim>\<open>float64\<close>. A zero divisor is the positive zero
  here: the only divisors of the package are conversions of integers.
\<close>

fun float64_div :: "float64 \<Rightarrow> float64 \<Rightarrow> float64" where
  "float64_div NaN _ = NaN"
| "float64_div _ NaN = NaN"
| "float64_div (Finite x) (Finite y) =
     (if y = 0 then (if x = 0 then NaN else if 0 < x then PosInf else NegInf)
      else round64 (x / y))"
| "float64_div (Finite x) PosInf = Finite 0"
| "float64_div (Finite x) NegInf = Finite 0"
| "float64_div PosInf (Finite y) = (if 0 \<le> y then PosInf else NegInf)"
| "float64_div NegInf (Finite y) = (if 0 \<le> y then NegInf else PosInf)"
| "float64_div PosInf PosInf = NaN"
| "float64_div PosInf NegInf = NaN"
| "float64_div NegInf PosInf = NaN"
| "float64_div NegInf NegInf = NaN"

text \<open>\<^verbatim>\<open>math.Ceil\<close>\<close>

fun Ceil :: "float64 \<Rightarrow> float64" where
  "Ceil (Finite q) = Finite (of_int \<lceil>q\<rceil>)"
| "Ceil f = f"

text \<open>
  The conversion \<^verbatim>\<open>int(f)\<close> truncates towards zero. Where the value does not fit
  (beyond the 64-bit range, an infinity, not-a-number) the Go specification leaves the
  result to the implementation: it is the parameter \<open>oob\<close>, a function of the value.
\<close>

definition int_of_float64 :: "(float64 \<Rightarrow> go_int) \<Rightarrow> float64 \<Rightarrow> go_int" where
  "int_of_float64 oob f =
     (case f of
        Finite q \<Rightarrow>
          (let z = (if 0 \<le> q then \<lfloor>q\<rfloor> else \<lceil>q\<rceil>)
           in if - (2 ^ 63) \<le> z \<and> z < 2 ^ 63 then word_of_int z else oob f)
      | _ \<Rightarrow> oob f)"

text \<open>Two implementations: amd64 answers the smallest integer, arm64 saturates.\<close>

definition oob_amd64 :: "float64 \<Rightarrow> go_int" where
  "oob_amd64 f = - (2 ^ 63)"


section \<open>Page numbers\<close>

text \<open>
  What a call leaves behind: it returns, or it panics. In both cases the record is the
  \<^verbatim>\<open>Set\<close> behind the pointer receiver as the call has modified it so far.
\<close>

datatype 'a outcome = Returned 'a | Panicked 'a

fun state_of :: "'a outcome \<Rightarrow> 'a" where
  "state_of (Returned s) = s"
| "state_of (Panicked s) = s"

text \<open>Line 162: \<^verbatim>\<open>int(math.Ceil(float64(s.Total) / float64(s.PerPage)))\<close>\<close>

definition numPagesOf :: "(float64 \<Rightarrow> go_int) \<Rightarrow> go_int \<Rightarrow> go_int \<Rightarrow> go_int" where
  "numPagesOf oob tot perPage =
     int_of_float64 oob (Ceil (float64_div (float64_of_int tot) (float64_of_int perPage)))"

text \<open>
  Lines 164 and 174 to 191: the first and the last page number to print, from
  \<^verbatim>\<open>NumPageNums\<close>, the current page and the number of pages.
\<close>

definition pageWindow :: "go_int \<Rightarrow> go_int \<Rightarrow> go_int \<Rightarrow> go_int \<times> go_int" where
  "pageWindow n page numPages =
     (let half = go_div n 2;
          first = page - half;
          last = page + half;
          first = (if first <s 1 then 1 else first);
          last = (if numPages <s last then numPages else last);
          last = (if n <s numPages \<and> last <s numPages \<and> page \<le>s half
                  then first + n - 1 else last);
          first = (if n <s numPages \<and> numPages - half <s page then last - n else first)
      in (first, last))"

text \<open>
  Lines 205 to 207: \<^verbatim>\<open>for i := first; i <= last; i++ { s.Pages = append(s.Pages, i) }\<close>.
  With \<open>last'\<close> the largest integer the increment wraps around and the loop does not end:
  the result is then \<open>None\<close>.
\<close>

partial_function (option) appendRange :: "go_int \<Rightarrow> go_int \<Rightarrow> go_int list \<Rightarrow> go_int list option"
where
  "appendRange i last' ps =
     (if i \<le>s last' then appendRange (i + 1) last' (ps @ [i]) else Some ps)"

declare appendRange.simps [code]

text \<open>
  \<^verbatim>\<open>func (s *Set) generateNumbers()\<close>. \<^verbatim>\<open>make([]int, 0, n)\<close> panics on a negative
  capacity \<open>n\<close>; memory is taken as unbounded.
\<close>

definition generateNumbers :: "(float64 \<Rightarrow> go_int) \<Rightarrow> PageSet \<Rightarrow> PageSet outcome option" where
  "generateNumbers oob s =
     (if Total s \<le>s PerPage s then Some (Returned (s\<lparr>Offset := 0, Page := 1\<rparr>))
      else
        let numPages = numPagesOf oob (Total s) (PerPage s);
            s1 = s\<lparr>TotalPages := numPages\<rparr>;
            s2 = (if numPages <s Page s1
                  then s1\<lparr>Offset := (numPages - 1) * PerPage s1, Page := numPages\<rparr>
                  else s1);
            (first, last) = pageWindow (NumPageNums (opts (pg s2))) (Page s2) numPages;
            s3 = (if first \<noteq> 1 then s2\<lparr>PinFirstPage := True\<rparr> else s2);
            s4 = (if last \<noteq> numPages then s3\<lparr>PinLastPage := True\<rparr> else s3)
        in if last - first + 1 <s 0 then Some (Panicked s4)
           else map_option (\<lambda>ps. Returned (s4\<lparr>Pages := ps\<rparr>)) (appendRange first last []))"

text \<open>\<^verbatim>\<open>func (s *Set) SetTotal(t int)\<close>\<close>

definition SetTotal :: "(float64 \<Rightarrow> go_int) \<Rightarrow> go_int \<Rightarrow> PageSet \<Rightarrow> PageSet outcome option" where
  "SetTotal oob t s = generateNumbers oob (s\<lparr>Total := t\<rparr>)"

text \<open>\<^verbatim>\<open>func (s *Set) SetParams(p url.Values)\<close>\<close>

definition SetParams :: "Values option \<Rightarrow> PageSet \<Rightarrow> PageSet" where
  "SetParams p s = s\<lparr>Params := p\<rparr>"

text \<open>Repeated calls of \<^verbatim>\<open>SetTotal\<close> on one \<^verbatim>\<open>Set\<close>, each after the previous one returned.\<close>

fun SetTotals :: "(float64 \<Rightarrow> go_int) \<Rightarrow> go_int list \<Rightarrow> PageSet \<Rightarrow> PageSet outcome option"
where
  "SetTotals oob [] s = Some (Returned s)"
| "SetTotals oob (t # ts) s =
     (case SetTotal oob t s of
        None \<Rightarrow> None
      | Some (Returned s') \<Rightarrow> SetTotals oob ts s'
      | Some (Panicked s') \<Rightarrow> Some (Panicked s'))"

subsection \<open>The stages of \<^verbatim>\<open>generateNumbers\<close>\<close>

text \<open>
  The \<^verbatim>\<open>Set\<close> after line 170 (the number of pages stored, the page clamped), the window
  of lines 174 to 191 computed from it, and the \<^verbatim>\<open>Set\<close> after line 202 (the pin flags).
  They are shown below to be the intermediate states of \<^const>\<open>generateNumbers\<close>.
\<close>

definition afterClamp :: "(float64 \<Rightarrow> go_int) \<Rightarrow> PageSet \<Rightarrow> PageSet" where
  "afterClamp oob s =
     (let np = numPagesOf oob (Total s) (PerPage s)
      in if np <s Page s
         then s\<lparr>TotalPages := np, Offset := (np - 1) * PerPage s, Page := np\<rparr>
         else s\<lparr>TotalPages := np\<rparr>)"

definition windowOf :: "(float64 \<Rightarrow> go_int) \<Rightarrow> PageSet \<Rightarrow> go_int \<times> go_int" where
  "windowOf oob s =
     (let s2 = afterClamp oob s
      in pageWindow (NumPageNums (opts (pg s))) (Page s2) (TotalPages s2))"

definition afterFlags :: "(float64 \<Rightarrow> go_int) \<Rightarrow> PageSet \<Rightarrow> PageSet" where
  "afterFlags oob s =
     (let s2 = afterClamp oob s; w = windowOf oob s
      in s2\<lparr>PinFirstPage := PinFirstPage s \<or> fst w \<noteq> 1,
             PinLastPage := PinLastPage s \<or> snd w \<noteq> TotalPages s2\<rparr>)"


section \<open>Sanitisation precedence\<close>

text \<open>
  The precedence as the specification words it, rule by rule (4.2, steps 1 to 5),
  for comparison with \<^const>\<open>Paginator_New\<close>.
\<close>

definition spec_per_page :: "bool \<Rightarrow> go_int \<Rightarrow> go_int \<Rightarrow> go_int \<Rightarrow> go_int" where
  "spec_per_page allow_unbounded default_per_page max_per_page per_page =
     (if per_page <s 0 \<and> allow_unbounded then 0
      else if per_page <s 1 then default_per_page
      else if \<not> allow_unbounded \<and> max_per_page <s per_page then max_per_page
      else per_page)"

definition spec_page :: "go_int \<Rightarrow> go_int" where
  "spec_page page = (if page <s 1 then 1 else page)"

section \<open>Query parameters\<close>

text \<open>
  The standard library is not part of the repository; what the package uses of it is
  modelled here from the library's documented behaviour.
\<close>


definition Values_Set :: "Values \<Rightarrow> string \<Rightarrow> string \<Rightarrow> Values" where
  "Values_Set v key val = AList.update key [val] v"








section \<open>Rendering\<close>

text \<open>\<^verbatim>\<open>fmt.Sprintf("%d", p)\<close>: the decimal digits, after a minus sign when negative.\<close>

function showDigits :: "int \<Rightarrow> string" where
  "showDigits n =
     (if n < 10 then [''0123456789'' ! nat n]
      else showDigits (n div 10) @ [''0123456789'' ! nat (n mod 10)])"
  by pat_completeness auto
termination
  by (relation "measure nat") auto

declare showDigits.simps [simp del]

definition Sprintf_d :: "go_int \<Rightarrow> string" where
  "Sprintf_d p =
     (if sint p < 0 then CHR ''-'' # showDigits (- sint p) else showDigits (sint p))"

text \<open>
  \<^verbatim>\<open>url.QueryEscape\<close> keeps letters, digits and \<^verbatim>\<open>-_.~\<close>, writes a space as \<^verbatim>\<open>+\<close> and any
  other byte as \<^verbatim>\<open>%XX\<close>. \<^verbatim>\<open>url.Values.Encode\<close> writes \<^verbatim>\<open>key=value\<close> for every value, keys
  sorted, joined by \<^verbatim>\<open>&\<close>.
\<close>

definition unreserved :: "char \<Rightarrow> bool" where
  "unreserved c =
     (let n = (of_char c :: int)
      in (48 \<le> n \<and> n \<le> 57) \<or> (65 \<le> n \<and> n \<le> 90) \<or> (97 \<le> n \<and> n \<le> 122)
         \<or> c = CHR ''-'' \<or> c = CHR ''_'' \<or> c = CHR ''.'' \<or> c = CHR ''~'')"

definition escapeByte :: "char \<Rightarrow> string" where
  "escapeByte c =
     (if unreserved c then [c]
      else if c = CHR '' '' then ''+''
      else [CHR ''%'', ''0123456789ABCDEF'' ! (of_char c div 16),
            ''0123456789ABCDEF'' ! (of_char c mod 16)])"

definition QueryEscape :: "string \<Rightarrow> string" where
  "QueryEscape s = concat (map escapeByte s)"

definition Encode :: "Values \<Rightarrow> string" where
  "Encode v =
     foldl (\<lambda>buf (k, vs).
        foldl (\<lambda>buf x. (if buf \<noteq> [] then buf @ ''&'' else buf)
                 @ QueryEscape k @ ''='' @ QueryEscape x) buf vs)
       [] (sort_key fst v)"

text \<open>
  \<^verbatim>\<open>func (s *Set) HTML(uri string, qp url.Values) string\<close>. The buffer \<open>b\<close> and the map
  \<open>qp\<close> are threaded through the three parts; \<open>HTML_run\<close> also answers the map as the call
  leaves it, since a map of the caller that is not nil is modified in place.
\<close>

fun HTML_pages ::
  "PageSet \<Rightarrow> string \<Rightarrow> go_int list \<Rightarrow> string \<times> Values \<Rightarrow> string \<times> Values"
where
  \<open>HTML_pages s uri [] (b, qp) = (b, qp)\<close>
| \<open>HTML_pages s uri (p # ps) (b, qp) =
     (let c = (if Page s = p then '' pg-selected'' else []);
          qp = Values_Set qp (PageParam (opts (pg s))) (Sprintf_d p);
          u = uri @ ''?'' @ Encode qp;
          b = b @ ''<a class="pg-page'' @ c @ ''" href="'' @ u @ ''">'';
          b = b @ Sprintf_d p;
          b = b @ ''</a> ''
      in HTML_pages s uri ps (b, qp))\<close>

definition HTML_run :: "PageSet \<Rightarrow> string \<Rightarrow> Values option \<Rightarrow> string \<times> Values" where
  \<open>HTML_run s uri qp0 =
     (let qp = (case qp0 of None \<Rightarrow> [] | Some q \<Rightarrow> q);
          b = [];
          (b, qp) =
            (if PinFirstPage s then
               (let qp = Values_Set qp (PageParam (opts (pg s))) ''1'';
                    u = uri @ ''?'' @ Encode qp;
                    b = b @ ''<a class="pg-page-first" href="'' @ u @ ''">'';
                    b = b @ ''1'';
                    b = b @ ''</a> '';
                    b = b @ ''<span class="pg-page-ellipsis-first">...</span> ''
                in (b, qp))
             else (b, qp));
          (b, qp) = HTML_pages s uri (Pages s) (b, qp);
          (b, qp) =
            (if PinLastPage s then
               (let qp = Values_Set qp (PageParam (opts (pg s))) (Sprintf_d (TotalPages s));
                    u = uri @ ''?'' @ Encode qp;
                    b = b @ ''<span class="pg-page-ellipsis-last">...</span> '';
                    b = b @ ''<a class="pg-page-last" href="'' @ u @ ''">'';
                    b = b @ Sprintf_d (TotalPages s);
                    b = b @ ''</a> ''
                in (b, qp))
             else (b, qp))
      in (b, qp))\<close>

definition HTML :: "PageSet \<Rightarrow> string \<Rightarrow> Values option \<Rightarrow> string" where
  "HTML s uri qp = fst (HTML_run s uri qp)"

text \<open>
  The markup as the specification words it (4.4 and 6), for comparison: an anchor per
  link, each with the page parameter set in the caller's parameters. \<open>sel\<close> is what the
  class of the current page's anchor carries after \<^verbatim>\<open>pg-page\<close>.
\<close>

definition spec_anchor :: "PageSet \<Rightarrow> string \<Rightarrow> Values \<Rightarrow> string \<Rightarrow> string \<Rightarrow> string" where
  \<open>spec_anchor s uri qp cls num =
     ''<a class="'' @ cls @ ''" href="'' @ uri @ ''?''
       @ Encode (Values_Set qp (PageParam (opts (pg s))) num) @ ''">'' @ num @ ''</a> ''\<close>

definition spec_render :: "string \<Rightarrow> PageSet \<Rightarrow> string \<Rightarrow> Values option \<Rightarrow> string" where
  \<open>spec_render sel s uri qp0 =
     (let qp = (case qp0 of None \<Rightarrow> [] | Some q \<Rightarrow> q)
      in (if PinFirstPage s
          then spec_anchor s uri qp ''pg-page-first'' ''1''
                 @ ''<span class="pg-page-ellipsis-first">...</span> ''
          else [])
         @ concat (map (\<lambda>p. spec_anchor s uri qp
                          (if p = Page s then ''pg-page'' @ sel else ''pg-page'') (Sprintf_d p))
              (Pages s))
         @ (if PinLastPage s
            then ''<span class="pg-page-ellipsis-last">...</span> ''
                   @ spec_anchor s uri qp ''pg-page-last'' (Sprintf_d (TotalPages s))
            else []))\<close>

section \<open>Signed 64-bit arithmetic without wrap-around\<close>







section \<open>The stages of generateNumbers\<close>

lemma generateNumbers_short:
  "Total s \<le>s PerPage s \<Longrightarrow> generateNumbers oob s = Some (Returned (s\<lparr>Offset := 0, Page := 1\<rparr>))"
  by (simp add: generateNumbers_def)

lemma generateNumbers_long:
  assumes "\<not> Total s \<le>s PerPage s"
  shows "generateNumbers oob s =
     (if snd (windowOf oob s) - fst (windowOf oob s) + 1 <s 0 then Some (Panicked (afterFlags oob s))
      else map_option (\<lambda>ps. Returned ((afterFlags oob s)\<lparr>Pages := ps\<rparr>))
             (appendRange (fst (windowOf oob s)) (snd (windowOf oob s)) []))"
  using assms
  by (simp add: generateNumbers_def afterFlags_def afterClamp_def windowOf_def Let_def
      split_beta)

lemma afterClamp_fields:
  "Total (afterClamp oob s) = Total s" "PerPage (afterClamp oob s) = PerPage s"
  "pg (afterClamp oob s) = pg s" "Pages (afterClamp oob s) = Pages s"
  "Params (afterClamp oob s) = Params s" "Limit (afterClamp oob s) = Limit s"
  "PinFirstPage (afterClamp oob s) = PinFirstPage s"
  "PinLastPage (afterClamp oob s) = PinLastPage s"
  "TotalPages (afterClamp oob s) = numPagesOf oob (Total s) (PerPage s)"
  "Page (afterClamp oob s) =
     (if numPagesOf oob (Total s) (PerPage s) <s Page s
      then numPagesOf oob (Total s) (PerPage s) else Page s)"
  "Offset (afterClamp oob s) =
     (if numPagesOf oob (Total s) (PerPage s) <s Page s
      then (numPagesOf oob (Total s) (PerPage s) - 1) * PerPage s else Offset s)"
  by (simp_all add: afterClamp_def Let_def)

lemma afterFlags_fields:
  "Total (afterFlags oob s) = Total s" "PerPage (afterFlags oob s) = PerPage s"
  "pg (afterFlags oob s) = pg s" "Pages (afterFlags oob s) = Pages s"
  "Params (afterFlags oob s) = Params s" "Limit (afterFlags oob s) = Limit s"
  "TotalPages (afterFlags oob s) = numPagesOf oob (Total s) (PerPage s)"
  "Page (afterFlags oob s) = Page (afterClamp oob s)"
  "Offset (afterFlags oob s) = Offset (afterClamp oob s)"
  "PinFirstPage (afterFlags oob s) = (PinFirstPage s \<or> fst (windowOf oob s) \<noteq> 1)"
  "PinLastPage (afterFlags oob s) =
     (PinLastPage s \<or> snd (windowOf oob s) \<noteq> numPagesOf oob (Total s) (PerPage s))"
  by (simp_all add: afterFlags_def Let_def afterClamp_fields)

lemma afterClamp_again:
  "afterClamp oob ((afterFlags oob s)\<lparr>Pages := ps\<rparr>) = (afterFlags oob s)\<lparr>Pages := ps\<rparr>"
  by (simp add: afterClamp_def [of oob "(afterFlags oob s)\<lparr>Pages := ps\<rparr>"] Let_def
      afterFlags_fields afterClamp_fields)

lemma windowOf_again:
  "windowOf oob ((afterFlags oob s)\<lparr>Pages := ps\<rparr>) = windowOf oob s"
  by (simp add: windowOf_def [of oob "(afterFlags oob s)\<lparr>Pages := ps\<rparr>"] afterClamp_again
      afterFlags_fields)
    (simp add: windowOf_def Let_def afterClamp_fields)

lemma afterFlags_again:
  "afterFlags oob ((afterFlags oob s)\<lparr>Pages := ps\<rparr>) = (afterFlags oob s)\<lparr>Pages := ps\<rparr>"
  by (rule PageSet.equality)
    (auto simp add: afterFlags_fields windowOf_again afterClamp_again)

lemma generateNumbers_again:
  assumes "generateNumbers oob s = Some (Returned s1)"
  shows "generateNumbers oob s1 = Some (Returned s1)"
proof (cases "Total s \<le>s PerPage s")
  case True
  with assms have "s1 = s\<lparr>Offset := 0, Page := 1\<rparr>"
    by (simp add: generateNumbers_short)
  with True show ?thesis
    by (simp add: generateNumbers_short)
next
  case False
  let ?f = "fst (windowOf oob s)" and ?l = "snd (windowOf oob s)"
  from assms False have np: "\<not> ?l - ?f + 1 <s 0"
    by (auto simp: generateNumbers_long split: if_splits)
  with assms False obtain ps where ps: "appendRange ?f ?l [] = Some ps"
    and s1: "s1 = (afterFlags oob s)\<lparr>Pages := ps\<rparr>"
    by (auto simp: generateNumbers_long)
  from False s1 have "\<not> Total s1 \<le>s PerPage s1"
    by (simp add: afterFlags_fields)
  then show ?thesis
    by (simp add: generateNumbers_long) (simp add: s1 windowOf_again afterFlags_again np ps)
qed

lemma generateNumbers_state:
  assumes "\<not> Total s \<le>s PerPage s" and "generateNumbers oob s = Some r"
  shows "(\<exists>ps. state_of r = (afterFlags oob s)\<lparr>Pages := ps\<rparr>)"
proof (cases "snd (windowOf oob s) - fst (windowOf oob s) + 1 <s 0")
  case True
  with assms have "state_of r = (afterFlags oob s)\<lparr>Pages := Pages (afterFlags oob s)\<rparr>"
    by (auto simp: generateNumbers_long)
  then show ?thesis ..
next
  case False
  with assms show ?thesis
    by (auto simp: generateNumbers_long)
qed

lemma SetTotal_pins:
  assumes "SetTotal oob t s = Some r"
  shows "(PinFirstPage s \<longrightarrow> PinFirstPage (state_of r))
       \<and> (PinLastPage s \<longrightarrow> PinLastPage (state_of r))"
proof (cases "t \<le>s PerPage s")
  case True
  with assms show ?thesis
    by (auto simp: SetTotal_def generateNumbers_short)
next
  case False
  then have "\<not> Total (s\<lparr>Total := t\<rparr>) \<le>s PerPage (s\<lparr>Total := t\<rparr>)"
    by simp
  from generateNumbers_state [OF this] assms
  obtain ps where "state_of r = (afterFlags oob (s\<lparr>Total := t\<rparr>))\<lparr>Pages := ps\<rparr>"
    by (auto simp: SetTotal_def)
  then show ?thesis
    by (simp add: afterFlags_fields)
qed

section \<open>The window on integers\<close>



section \<open>Rounding to binary64 and the number of pages\<close>



















section \<open>Returning from SetTotal\<close>





section \<open>Parsing the query and rendering the links\<close>





lemma spec_anchor_Set:
  "spec_anchor s uri (Values_Set qp (PageParam (opts (pg s))) v) cls num =
     spec_anchor s uri qp cls num"
  by (simp add: spec_anchor_def Values_Set_def)

lemma HTML_pages_eq:
  "HTML_pages s uri ps (b, qp) =
     (b @ concat (map (\<lambda>p. spec_anchor s uri qp
                          (if p = Page s then ''pg-page'' @ '' pg-selected'' else ''pg-page'')
                          (Sprintf_d p)) ps),
      (if ps = [] then qp
       else Values_Set qp (PageParam (opts (pg s))) (Sprintf_d (last ps))))"
proof (induction ps arbitrary: b qp)
  case Nil
  show ?case by simp
next
  case (Cons p ps)
  show ?case
    by (simp add: Cons.IH Let_def spec_anchor_Set) (simp add: spec_anchor_def Values_Set_def)
qed

section \<open>The claims\<close>

text \<open>
  C1. For every page and per_page, \<^verbatim>\<open>Paginator.New\<close> sanitises per_page with the
  precedence: negative with AllowAll gives 0; otherwise below 1 gives DefaultPerPage;
  otherwise above MaxPerPage without AllowAll gives MaxPerPage (with AllowAll the maximum
  is never enforced); a page below 1 becomes 1; and Offset is (page - 1) * per_page and
  Limit is per_page, both from the sanitised values.
\<close>

theorem C1_New_sanitizes:
  "PerPage (Paginator_New p page perPage) =
     spec_per_page (AllowAll (opts p)) (DefaultPerPage (opts p)) (MaxPerPage (opts p)) perPage
   \<and> Page (Paginator_New p page perPage) = spec_page page
   \<and> Offset (Paginator_New p page perPage) =
       (Page (Paginator_New p page perPage) - 1) * PerPage (Paginator_New p page perPage)
   \<and> Limit (Paginator_New p page perPage) = PerPage (Paginator_New p page perPage)
   \<and> (AllowAll (opts p) \<and> 1 \<le>s perPage \<longrightarrow> PerPage (Paginator_New p page perPage) = perPage)"
  by (simp add: Paginator_New_def spec_per_page_def spec_page_def Let_def
      word_sless_alt word_sle_eq)

theorem C1_New_sanitizes_witness:
  "AllowAll (opts (New (Default\<lparr>AllowAll := True\<rparr>))) \<and> 1 \<le>s (500 :: go_int)
   \<and> PerPage (Paginator_New (New (Default\<lparr>AllowAll := True\<rparr>)) 3 500) = 500
   \<and> Offset (Paginator_New (New (Default\<lparr>AllowAll := True\<rparr>)) 3 500) = 1000"
  using C1_New_sanitizes [of "New (Default\<lparr>AllowAll := True\<rparr>)" 3 500]
  by (simp add: New_def Default_def Paginator_New_def word_sle_eq word_sless_alt)









text \<open>
  C5. For every freshly built Set and every total with total <= per_page, \<^verbatim>\<open>SetTotal\<close>
  returns at once: Offset is 0, Page is 1, Pages stays empty, TotalPages stays 0 and neither
  pin flag is set.
\<close>

theorem C5_short_circuit:
  assumes "t \<le>s PerPage (Paginator_New p page perPage)"
  shows "SetTotal oob t (Paginator_New p page perPage) =
     Some (Returned
       \<lparr> Page = 1, PerPage = PerPage (Paginator_New p page perPage), TotalPages = 0,
         Total = t, Params = None, Offset = 0,
         Limit = PerPage (Paginator_New p page perPage),
         PinFirstPage = False, PinLastPage = False, Pages = [], pg = p \<rparr>)"
  using assms
  by (simp add: SetTotal_def generateNumbers_short) (simp add: Paginator_New_def Let_def)

theorem C5_short_circuit_witness:
  "(4 :: go_int) \<le>s PerPage (Paginator_New (New Default) 3 5)
   \<and> SetTotal oob_amd64 4 (Paginator_New (New Default) 3 5) =
       Some (Returned
         \<lparr> Page = 1, PerPage = 5, TotalPages = 0, Total = 4, Params = None, Offset = 0,
           Limit = 5, PinFirstPage = False, PinLastPage = False, Pages = [],
           pg = New Default \<rparr>)"
proof -
  have pp: "PerPage (Paginator_New (New Default) 3 5) = 5"
    by (simp add: Paginator_New_def New_def Default_def Let_def word_sless_alt)
  then have le: "(4 :: go_int) \<le>s PerPage (Paginator_New (New Default) 3 5)"
    by (simp add: word_sle_eq)
  from C5_short_circuit [OF le, of oob_amd64] pp le show ?thesis by simp
qed

text \<open>
  C6 (as amended). For every Set, \<^verbatim>\<open>HTML(uri, qp)\<close> is the concatenation of: if PinFirstPage,
  an anchor to page 1 with class pg-page-first, then an ellipsis span with class
  pg-page-ellipsis-first; then, for each entry of Pages in order, an anchor with class
  pg-page, where the anchor of the current Page carries the class pg-selected after pg-page;
  then, if PinLastPage, an ellipsis span with class pg-page-ellipsis-last and an anchor to
  TotalPages with class pg-page-last. Every anchor links to uri, "?" and the encoding of
  the caller's parameters with the page parameter set to the page of the link.
\<close>

theorem C6_HTML_markup:
  "HTML s uri qp = spec_render '' pg-selected'' s uri qp"
proof -
  let ?k = "PageParam (opts (pg s))"
  obtain q where q: "q = (case qp of None \<Rightarrow> [] | Some x \<Rightarrow> x)" by simp
  show ?thesis
    unfolding HTML_def HTML_run_def spec_render_def Let_def q [symmetric]
    by (simp add: HTML_pages_eq spec_anchor_Set split_beta)
      (simp add: spec_anchor_def Values_Set_def)
qed

theorem C6_HTML_markup_witness:
  \<open>HTML \<lparr> Page = 2, PerPage = 5, TotalPages = 20, Total = 100, Params = None, Offset = 5,
            Limit = 5, PinFirstPage = False, PinLastPage = True,
            Pages = [1, 2, 3], pg = New Default \<rparr> ''/things'' (Some [(''q'', [''a b''])]) =
     ''<a class="pg-page" href="/things?page=1&q=a+b">1</a> ''
     @ ''<a class="pg-page pg-selected" href="/things?page=2&q=a+b">2</a> ''
     @ ''<a class="pg-page" href="/things?page=3&q=a+b">3</a> ''
     @ ''<span class="pg-page-ellipsis-last">...</span> ''
     @ ''<a class="pg-page-last" href="/things?page=20&q=a+b">20</a> ''\<close>
proof -
  let ?s = "\<lparr> Page = 2, PerPage = 5, TotalPages = 20, Total = 100, Params = None, Offset = 5,
            Limit = 5, PinFirstPage = False, PinLastPage = True,
            Pages = [1, 2, 3 :: go_int], pg = New Default \<rparr>"
  have \<open>spec_render '' pg-selected'' ?s ''/things'' (Some [(''q'', [''a b''])]) =
     ''<a class="pg-page" href="/things?page=1&q=a+b">1</a> ''
     @ ''<a class="pg-page pg-selected" href="/things?page=2&q=a+b">2</a> ''
     @ ''<a class="pg-page" href="/things?page=3&q=a+b">3</a> ''
     @ ''<span class="pg-page-ellipsis-last">...</span> ''
     @ ''<a class="pg-page-last" href="/things?page=20&q=a+b">20</a> ''\<close>
    by code_simp
  then show ?thesis by (simp only: C6_HTML_markup)
qed

text \<open>
  The claim as stated names the class pg-page-selected; the markup of the code differs
  from it wherever the current page is among the page numbers.
\<close>

theorem C6_counterexample:
  \<open>HTML \<lparr> Page = 2, PerPage = 5, TotalPages = 20, Total = 100, Params = None, Offset = 5,
            Limit = 5, PinFirstPage = False, PinLastPage = True,
            Pages = [1, 2, 3], pg = New Default \<rparr> ''/things'' None
   \<noteq> spec_render '' pg-page-selected''
        \<lparr> Page = 2, PerPage = 5, TotalPages = 20, Total = 100, Params = None, Offset = 5,
          Limit = 5, PinFirstPage = False, PinLastPage = True,
          Pages = [1, 2, 3], pg = New Default \<rparr> ''/things'' None\<close>
  by code_simp



text \<open>
  C8. For every Set and total, when \<^verbatim>\<open>SetTotal\<close> has returned, a second call with the same
  total returns the same Set: identical Pages, pin flags and TotalPages (and every other
  field).
\<close>

theorem C8_SetTotal_idempotent:
  assumes "SetTotal oob t s = Some (Returned s1)"
  shows "\<exists>s2. SetTotal oob t s1 = Some (Returned s2)
           \<and> Pages s2 = Pages s1 \<and> PinFirstPage s2 = PinFirstPage s1
           \<and> PinLastPage s2 = PinLastPage s1 \<and> TotalPages s2 = TotalPages s1
           \<and> s2 = s1"
proof -
  from assms have g: "generateNumbers oob (s\<lparr>Total := t\<rparr>) = Some (Returned s1)"
    by (simp add: SetTotal_def)
  have "Total s1 = t"
  proof (cases "t \<le>s PerPage s")
    case True
    with g show ?thesis by (auto simp: generateNumbers_short)
  next
    case False
    then have "\<not> Total (s\<lparr>Total := t\<rparr>) \<le>s PerPage (s\<lparr>Total := t\<rparr>)" by simp
    from generateNumbers_state [OF this g] show ?thesis
      by (auto simp: afterFlags_fields)
  qed
  then have "s1\<lparr>Total := t\<rparr> = s1" by simp
  with generateNumbers_again [OF g] have "SetTotal oob t s1 = Some (Returned s1)"
    by (simp add: SetTotal_def)
  then show ?thesis by simp
qed

theorem C8_SetTotal_idempotent_witness:
  "SetTotal oob_amd64 100 (Paginator_New (New Default) 25 5) =
     Some (Returned
       \<lparr> Page = 20, PerPage = 5, TotalPages = 20, Total = 100, Params = None, Offset = 95,
         Limit = 5, PinFirstPage = True, PinLastPage = False,
         Pages = [10, 11, 12, 13, 14, 15, 16, 17, 18, 19, 20], pg = New Default \<rparr>)
   \<and> SetTotal oob_amd64 100
       \<lparr> Page = 20, PerPage = 5, TotalPages = 20, Total = 100, Params = None, Offset = 95,
         Limit = 5, PinFirstPage = True, PinLastPage = False,
         Pages = [10, 11, 12, 13, 14, 15, 16, 17, 18, 19, 20], pg = New Default \<rparr> =
     Some (Returned
       \<lparr> Page = 20, PerPage = 5, TotalPages = 20, Total = 100, Params = None, Offset = 95,
         Limit = 5, PinFirstPage = True, PinLastPage = False,
         Pages = [10, 11, 12, 13, 14, 15, 16, 17, 18, 19, 20], pg = New Default \<rparr>)"
proof -
  have a: "SetTotal oob_amd64 100 (Paginator_New (New Default) 25 5) =
     Some (Returned
       \<lparr> Page = 20, PerPage = 5, TotalPages = 20, Total = 100, Params = None, Offset = 95,
         Limit = 5, PinFirstPage = True, PinLastPage = False,
         Pages = [10, 11, 12, 13, 14, 15, 16, 17, 18, 19, 20], pg = New Default \<rparr>)"
    by code_simp
  from C8_SetTotal_idempotent [OF a] a show ?thesis by simp
qed



text \<open>
  C10. The pin flags are monotone under \<^verbatim>\<open>SetTotal\<close>: over any sequence of calls, with any
  totals, a flag that is set at the start is still set in what the calls leave behind.
\<close>

theorem C10_pins_monotone:
  "SetTotals oob ts s = Some r \<Longrightarrow>
     (PinFirstPage s \<longrightarrow> PinFirstPage (state_of r))
     \<and> (PinLastPage s \<longrightarrow> PinLastPage (state_of r))"
proof (induction ts arbitrary: s)
  case Nil
  then show ?case by auto
next
  case (Cons t ts)
  show ?case
  proof (cases "SetTotal oob t s")
    case None
    with Cons.prems show ?thesis by simp
  next
    case (Some r1)
    note pins = SetTotal_pins [OF Some]
    show ?thesis
    proof (cases r1)
      case (Returned s')
      with Some Cons.prems have "SetTotals oob ts s' = Some r" by simp
      from Cons.IH [OF this] pins Returned show ?thesis by simp
    next
      case (Panicked s')
      with Some Cons.prems have "r = Panicked s'" by simp
      with pins Panicked show ?thesis by simp
    qed
  qed
qed

theorem C10_pins_monotone_witness:
  "SetTotals oob_amd64 [3, 100]
     \<lparr> Page = 10, PerPage = 5, TotalPages = 20, Total = 100, Params = None, Offset = 45,
       Limit = 5, PinFirstPage = True, PinLastPage = True,
       Pages = [5, 6, 7, 8, 9, 10, 11, 12, 13, 14, 15], pg = New Default \<rparr> =
     Some (Returned
       \<lparr> Page = 1, PerPage = 5, TotalPages = 20, Total = 100, Params = None, Offset = 0,
         Limit = 5, PinFirstPage = True, PinLastPage = True,
         Pages = [1, 2, 3, 4, 5, 6, 7, 8, 9, 10], pg = New Default \<rparr>)"
proof -
  let ?s0 = "\<lparr> Page = 10, PerPage = 5, TotalPages = 20, Total = 100, Params = None, Offset = 45,
       Limit = 5, PinFirstPage = True, PinLastPage = True,
       Pages = [5, 6, 7, 8, 9, 10, 11, 12, 13, 14, 15 :: go_int], pg = New Default \<rparr>"
  let ?s1 = "\<lparr> Page = 1, PerPage = 5, TotalPages = 20, Total = 100, Params = None, Offset = 0,
         Limit = 5, PinFirstPage = True, PinLastPage = True,
         Pages = [1, 2, 3, 4, 5, 6, 7, 8, 9, 10 :: go_int], pg = New Default \<rparr>"
  have r: "SetTotals oob_amd64 [3, 100] ?s0 = Some (Returned ?s1)"
    by code_simp
  from C10_pins_monotone [OF r] r show ?thesis by simp
qed

end
